theory Spec2Isabelle
  imports Complex_Main
begin

section \<open>The load test script (load-test.js)\<close>

text \<open>
  The script calls autocannon, prints four figures of the result and ends the process
  with \<^verbatim>\<open>process.exit\<close>. autocannon is a library: what it returns is an input of the
  model, either a rejected promise (\<open>Inl\<close>, carrying the error) or the result object
  (\<open>Inr\<close>). The figures are JavaScript numbers; autocannon reports finite ones, and the
  comparison of a finite number with the constant 500 is exact, so they are modelled
  as \<open>real\<close>.
\<close>

record result =
  requests_total :: real
  throughput_total :: real
  latency_average :: real
  latency_p99 :: real

text \<open>
  A line written to the console: a fixed text, a template literal with one number in
  it (\<^verbatim>\<open>`- Requests: ${n}`\<close>, its text before and after the number), or a text
  followed by an error object.
\<close>

datatype logline =
    Line string
  | LineNum string real string
  | LineErr string string

record console =
  out :: "logline list"
  err :: "logline list"

definition console_log :: "logline \<Rightarrow> console \<Rightarrow> console" where
  "console_log l c = c\<lparr>out := out c @ [l]\<rparr>"

definition console_error :: "logline \<Rightarrow> console \<Rightarrow> console" where
  "console_error l c = c\<lparr>err := err c @ [l]\<rparr>"

text \<open>
  The body of \<^verbatim>\<open>async function runLoadTest()\<close>. It returns the console and how the
  body ended: \<open>Inl e\<close> when the awaited promise rejected with \<open>e\<close> (the function's own
  promise then rejects with it), \<open>Inr code\<close> when \<^verbatim>\<open>process.exit(code)\<close> was reached.
  \<^verbatim>\<open>process.exit\<close> does not return, so the \<^verbatim>\<open>process.exit(0)\<close> after the \<^verbatim>\<open>if\<close> is
  reached only when the branch was not taken.
\<close>

definition runLoadTest :: "string + result \<Rightarrow> console \<Rightarrow> console \<times> (string + int)" where
  "runLoadTest autocannon c0 =
     (let c1 = console_log (Line ''Starting load test...'') c0 in
      case autocannon of
        Inl e \<Rightarrow> (c1, Inl e)
      | Inr r \<Rightarrow>
         (let c2 = console_log (Line ''Load test complete'') c1;
              c3 = console_log (Line ''Results:'') c2;
              c4 = console_log (LineNum ''- Requests: '' (requests_total r) '''') c3;
              c5 = console_log (LineNum ''- Throughput: '' (throughput_total r) '' bytes/sec'') c4;
              c6 = console_log (LineNum ''- Latency (avg): '' (latency_average r) '' ms'') c5;
              c7 = console_log (LineNum ''- Latency (p99): '' (latency_p99 r) '' ms'') c6
          in if latency_p99 r > 500
             then (console_error (Line ''Performance threshold exceeded!'') c7, Inr 1)
             else (c7, Inr 0)))"

record process =
  stdout :: "logline list"
  stderr :: "logline list"
  exit_code :: int

text \<open>
  The last statement of the script, \<^verbatim>\<open>runLoadTest().catch(err => ...)\<close>: a rejection is
  printed on the error stream and the process exits with status 1.
\<close>

definition load_test :: "string + result \<Rightarrow> process" where
  "load_test autocannon =
     (case runLoadTest autocannon \<lparr>out = [], err = []\<rparr> of
        (c, Inr code) \<Rightarrow> \<lparr>stdout = out c, stderr = err c, exit_code = code\<rparr>
      | (c, Inl e) \<Rightarrow>
          (let c' = console_error (LineErr ''Load test failed:'' e) c
           in \<lparr>stdout = out c', stderr = err c', exit_code = 1\<rparr>))"

text \<open>
  The verdict of the script is its exit status: the workflow step
  \<^verbatim>\<open>npm run load-test\<close> succeeds on status 0 and fails on any other.
\<close>

datatype decision = Pass | Fail

definition gate_outcome :: "process \<Rightarrow> decision" where
  "gate_outcome p = (if exit_code p = 0 then Pass else Fail)"

section \<open>The deployment workflow (deploy.yml)\<close>

text \<open>
  The workflow is data: four jobs with their \<^verbatim>\<open>needs\<close>, their \<^verbatim>\<open>if\<close> and their steps.
  What runs it is GitHub Actions, whose rules for these constructs are written out below
  as one executor. A run that is cancelled from outside is not modelled, so a job or a
  step ends as success, failure or skipped.
\<close>

datatype status = Success | Failure | Skipped

fun status_str :: "status \<Rightarrow> string" where
  "status_str Success = ''success''"
| "status_str Failure = ''failure''"
| "status_str Skipped = ''skipped''"

text \<open>
  The threshold check is \<^verbatim>\<open>newrelic/newrelic-action@v1\<close>, an action that is not part of
  the repository. The workflow reads its step outcome, and a step that ran has one of two
  outcomes: the step succeeds when the threshold is met, and fails both when the
  threshold is breached (the \<^verbatim>\<open>Set performance status\<close> step relies on this) and when
  the action cannot evaluate at all (unknown metric, malformed query, bad key), as any
  failing action does. Which of the three happened, and which outputs the action sets,
  is an input of the model.
\<close>

datatype check_result = Met | Breached | Faulted

record marker =
  app_name :: string
  revision :: string
  user :: string
  description :: string

text \<open>
  The surroundings of one run: the commit and the actor of the \<^verbatim>\<open>github\<close> context, what
  the threshold check does, and for every other \<^verbatim>\<open>uses:\<close> step (by job id and position
  in the job) whether the action succeeds.
\<close>

record env =
  github_sha :: string
  github_actor :: string
  check :: check_result
  check_outputs :: "(string \<times> string) list"
  action_ok :: "string \<Rightarrow> nat \<Rightarrow> bool"

text \<open>
  The bodies of the steps that occur in the workflow: the threshold check with its
  \<^verbatim>\<open>threshold\<close> and \<^verbatim>\<open>operator\<close>, another action, the deployment marker action with its
  \<^verbatim>\<open>app_name\<close> and \<^verbatim>\<open>description\<close>, the shell script of \<^verbatim>\<open>Set performance status\<close>
  with the id of the step whose outcome it reads, and a script of one \<^verbatim>\<open>echo\<close>.
\<close>

datatype body =
    Check string string
  | Action string
  | Marker string string
  | SetStatus string
  | Echo string

record step =
  step_id :: string
  continue_on_error :: bool
  body :: body

record step_result =
  outcome :: status
  conclusion :: status
  step_outputs :: "(string \<times> string) list"

text \<open>
  \<^verbatim>\<open>steps.<id>.outcome\<close> and \<^verbatim>\<open>steps.<id>.outputs.<key>\<close>: a step or an output that
  does not exist reads as the empty string.
\<close>

definition steps_outcome :: "(string \<times> step_result) list \<Rightarrow> string \<Rightarrow> string" where
  "steps_outcome ctx sid =
     (case map_of ctx sid of None \<Rightarrow> [] | Some r \<Rightarrow> status_str (outcome r))"

definition steps_output :: "(string \<times> step_result) list \<Rightarrow> string \<Rightarrow> string \<Rightarrow> string" where
  "steps_output ctx sid key =
     (case map_of ctx sid of
        None \<Rightarrow> []
      | Some r \<Rightarrow> (case map_of (step_outputs r) key of None \<Rightarrow> [] | Some v \<Rightarrow> v))"

text \<open>
  What a step's body does when it runs: whether it succeeds, the outputs it sets and the
  deployment markers it records. The script of \<^verbatim>\<open>Set performance status\<close> compares
  the outcome of the check step with the text \<^verbatim>\<open>success\<close> and appends
  \<^verbatim>\<open>status=pass\<close> to \<^verbatim>\<open>$GITHUB_OUTPUT\<close> when they are equal, \<^verbatim>\<open>status=fail\<close>
  otherwise; it ends with status 0 on both branches, as a script of one \<^verbatim>\<open>echo\<close>
  does.
\<close>

fun exec_body ::
  "env \<Rightarrow> string \<Rightarrow> nat \<Rightarrow> (string \<times> step_result) list \<Rightarrow> body
     \<Rightarrow> bool \<times> (string \<times> string) list \<times> marker list" where
  "exec_body e j i ctx (Check threshold operator) = (check e = Met, check_outputs e, [])"
| "exec_body e j i ctx (Action a) = (action_ok e j i, [], [])"
| "exec_body e j i ctx (Marker app d) =
     (if action_ok e j i
      then (True, [], [\<lparr>app_name = app, revision = github_sha e,
                        user = github_actor e, description = d\<rparr>])
      else (False, [], []))"
| "exec_body e j i ctx (SetStatus sid) =
     (True,
      [(''status'', if steps_outcome ctx sid = ''success'' then ''pass'' else ''fail'')],
      [])"
| "exec_body e j i ctx (Echo s) = (True, [], [])"

record job_state =
  steps_ctx :: "(string \<times> step_result) list"
  failed :: bool
  markers :: "marker list"

text \<open>
  One step of a job. No step of the workflow has an \<^verbatim>\<open>if\<close>, so each has the default
  condition \<^verbatim>\<open>success()\<close>: it runs when no earlier step of the job has failed, and is
  skipped otherwise. The outcome of a step is its result before \<^verbatim>\<open>continue-on-error\<close>,
  the conclusion its result after: a failure under \<^verbatim>\<open>continue-on-error: true\<close> concludes
  as success and does not fail the job.
\<close>

definition run_step :: "env \<Rightarrow> string \<Rightarrow> job_state \<Rightarrow> nat \<times> step \<Rightarrow> job_state" where
  "run_step e j s ist =
     (case ist of (i, st) \<Rightarrow>
        if failed s
        then s\<lparr>steps_ctx := steps_ctx s @
               [(step_id st, \<lparr>outcome = Skipped, conclusion = Skipped, step_outputs = []\<rparr>)]\<rparr>
        else (case exec_body e j i (steps_ctx s) (body st) of
                (ok, outs, ms) \<Rightarrow>
                  (let oc = (if ok then Success else Failure);
                       cc = (if oc = Failure \<and> continue_on_error st then Success else oc)
                   in \<lparr>steps_ctx = steps_ctx s @
                          [(step_id st, \<lparr>outcome = oc, conclusion = cc, step_outputs = outs\<rparr>)],
                       failed = (cc = Failure),
                       markers = markers s @ ms\<rparr>)))"

text \<open>
  A job: its id, the jobs it needs, its \<^verbatim>\<open>if\<close> (absent, or
  \<^verbatim>\<open>needs.<job>.outputs.<name> == '<value>'\<close>), its steps, and its outputs, each
  \<^verbatim>\<open><name>: ${{ steps.<id>.outputs.<key> }}\<close>.
\<close>

record job =
  job_id :: string
  needs :: "string list"
  cond :: "(string \<times> string \<times> string) option"
  steps :: "step list"
  job_outputs :: "(string \<times> string \<times> string) list"

record job_result =
  result :: status
  outputs :: "(string \<times> string) list"
  steps_of :: "(string \<times> step_result) list"
  emitted :: "marker list"

definition needs_result :: "(string \<times> job_result) list \<Rightarrow> string \<Rightarrow> status" where
  "needs_result rs j = (case map_of rs j of None \<Rightarrow> Skipped | Some r \<Rightarrow> result r)"

definition needs_output :: "(string \<times> job_result) list \<Rightarrow> string \<Rightarrow> string \<Rightarrow> string" where
  "needs_output rs j k =
     (case map_of rs j of
        None \<Rightarrow> []
      | Some r \<Rightarrow> (case map_of (outputs r) k of None \<Rightarrow> [] | Some v \<Rightarrow> v))"

text \<open>
  The \<^verbatim>\<open>==\<close> of a workflow expression ignores case when it compares two strings:
  both sides are compared after the letters A to Z are folded to lower case.
\<close>

definition to_lower :: "char \<Rightarrow> char" where
  "to_lower c =
     (case map_of (zip ''ABCDEFGHIJKLMNOPQRSTUVWXYZ'' ''abcdefghijklmnopqrstuvwxyz'') c of
        None \<Rightarrow> c
      | Some l \<Rightarrow> l)"

definition expr_eq :: "string \<Rightarrow> string \<Rightarrow> bool" where
  "expr_eq a b = (map to_lower a = map to_lower b)"

text \<open>
  Whether a job runs. An \<^verbatim>\<open>if\<close> that calls no status function is taken together with
  \<^verbatim>\<open>success()\<close>, and so is an absent one: the job runs when every job it needs has
  succeeded and its own condition holds; otherwise it is skipped.
\<close>

definition job_runs :: "(string \<times> job_result) list \<Rightarrow> job \<Rightarrow> bool" where
  "job_runs rs jb =
     (list_all (\<lambda>n. needs_result rs n = Success) (needs jb)
      \<and> (case cond jb of
           None \<Rightarrow> True
         | Some (n, k, v) \<Rightarrow> expr_eq (needs_output rs n k) v))"

definition run_job :: "env \<Rightarrow> (string \<times> job_result) list \<Rightarrow> job \<Rightarrow> job_result" where
  "run_job e rs jb =
     (if job_runs rs jb
      then (let s = foldl (run_step e (job_id jb))
                      \<lparr>steps_ctx = [], failed = False, markers = []\<rparr>
                      (enumerate 0 (steps jb))
            in \<lparr>result = (if failed s then Failure else Success),
                outputs = map (\<lambda>(name, sid, key). (name, steps_output (steps_ctx s) sid key))
                            (job_outputs jb),
                steps_of = steps_ctx s,
                emitted = markers s\<rparr>)
      else \<lparr>result = Skipped, outputs = [], steps_of = [], emitted = []\<rparr>)"

text \<open>The jobs are run in the order of the file, which lists every job after its needs.\<close>

definition run_workflow :: "env \<Rightarrow> job list \<Rightarrow> (string \<times> job_result) list" where
  "run_workflow e jobs = foldl (\<lambda>rs jb. rs @ [(job_id jb, run_job e rs jb)]) [] jobs"

text \<open>The four jobs of \<^verbatim>\<open>deploy.yml\<close>, as written there.\<close>

definition performance_gate :: job where
  "performance_gate =
     \<lparr>job_id = ''performance-gate'', needs = [], cond = None,
      steps =
        [\<lparr>step_id = ''performance-check'', continue_on_error = True,
          body = Check ''300'' ''below''\<rparr>,
         \<lparr>step_id = ''set-status'', continue_on_error = False,
          body = SetStatus ''performance-check''\<rparr>],
      job_outputs = [(''performance_status'', ''performance-check'', ''status'')]\<rparr>"

definition deploy_staging :: job where
  "deploy_staging =
     \<lparr>job_id = ''deploy-staging'', needs = [''performance-gate''], cond = None,
      steps =
        [\<lparr>step_id = [], continue_on_error = False, body = Action ''actions/checkout@v3''\<rparr>,
         \<lparr>step_id = [], continue_on_error = False, body = Action ''actions/setup-node@v3''\<rparr>,
         \<lparr>step_id = [], continue_on_error = False,
          body = Echo ''Deploying to staging environment...''\<rparr>,
         \<lparr>step_id = [], continue_on_error = False,
          body = Marker ''Express APM Demo'' ''Deployed to staging''\<rparr>],
      job_outputs = []\<rparr>"

definition deploy_production :: job where
  "deploy_production =
     \<lparr>job_id = ''deploy-production'', needs = [''performance-gate'', ''deploy-staging''],
      cond = Some (''performance-gate'', ''performance_status'', ''pass''),
      steps =
        [\<lparr>step_id = [], continue_on_error = False, body = Action ''actions/checkout@v3''\<rparr>,
         \<lparr>step_id = [], continue_on_error = False, body = Action ''actions/setup-node@v3''\<rparr>,
         \<lparr>step_id = [], continue_on_error = False,
          body = Echo ''Deploying to production environment...''\<rparr>,
         \<lparr>step_id = [], continue_on_error = False,
          body = Marker ''Express APM Demo'' ''Deployed to production''\<rparr>],
      job_outputs = []\<rparr>"

definition notify_performance_issue :: job where
  "notify_performance_issue =
     \<lparr>job_id = ''notify-performance-issue'', needs = [''performance-gate''],
      cond = Some (''performance-gate'', ''performance_status'', ''fail''),
      steps =
        [\<lparr>step_id = [], continue_on_error = False,
          body = Echo ''Performance gate failed - sending notification''\<rparr>],
      job_outputs = []\<rparr>"

definition deploy_workflow :: "job list" where
  "deploy_workflow =
     [performance_gate, deploy_staging, deploy_production, notify_performance_issue]"

text \<open>
  One run of the workflow, and what the claims read from it: the result of a job (its
  Stage Outcome: \<open>Success\<close> is ran-ok, \<open>Failure\<close> is ran-failed, \<open>Skipped\<close> is skipped),
  the markers a job recorded, the value the \<^verbatim>\<open>Set performance status\<close> step wrote, and
  the job output \<^verbatim>\<open>performance_status\<close> that the guards of the later jobs read.
\<close>

definition pipeline :: "env \<Rightarrow> (string \<times> job_result) list" where
  "pipeline e = run_workflow e deploy_workflow"

definition stage :: "env \<Rightarrow> string \<Rightarrow> status" where
  "stage e j = needs_result (pipeline e) j"

definition markers_of :: "env \<Rightarrow> string \<Rightarrow> marker list" where
  "markers_of e j = (case map_of (pipeline e) j of None \<Rightarrow> [] | Some r \<Rightarrow> emitted r)"

definition set_status :: "env \<Rightarrow> string" where
  "set_status e =
     (case map_of (pipeline e) ''performance-gate'' of
        None \<Rightarrow> []
      | Some r \<Rightarrow> steps_output (steps_of r) ''set-status'' ''status'')"

definition performance_status :: "env \<Rightarrow> string" where
  "performance_status e = needs_output (pipeline e) ''performance-gate'' ''performance_status''"

text \<open>The Gate Decision that a status string stands for, if any.\<close>

definition gate_decision :: "string \<Rightarrow> decision option" where
  "gate_decision s =
     (if s = ''pass'' then Some Pass else if s = ''fail'' then Some Fail else None)"

text \<open>
  Every marker of the run, in the order of the jobs, and whether the three actions of a
  deploy job (checkout, Node.js setup, deployment marker: steps 0, 1 and 3) all succeed.
\<close>

definition all_markers :: "env \<Rightarrow> marker list" where
  "all_markers e = concat (map (\<lambda>jr. emitted (snd jr)) (pipeline e))"

definition deploy_ok :: "env \<Rightarrow> string \<Rightarrow> bool" where
  "deploy_ok e j = (action_ok e j 0 \<and> action_ok e j 1 \<and> action_ok e j 3)"

text \<open>
  Runs used as concrete inputs below. In \<open>run_value_only\<close> the threshold is met and the
  check action sets the one output the workflows read from it elsewhere, \<^verbatim>\<open>value\<close>; in
  \<open>run_breach\<close> and \<open>run_fault\<close> the check fails, by a breach and by a fault; in
  \<open>run_breach_status_pass\<close> the threshold is breached and the check action sets an
  output \<^verbatim>\<open>status\<close> of its own, to \<^verbatim>\<open>pass\<close>. Every other action succeeds.
\<close>

definition run_value_only :: env where
  "run_value_only =
     \<lparr>github_sha = ''4f2a9c1'', github_actor = ''octocat'', check = Met,
      check_outputs = [(''value'', ''250'')], action_ok = (\<lambda>j i. True)\<rparr>"

definition run_breach :: env where
  "run_breach =
     \<lparr>github_sha = ''4f2a9c1'', github_actor = ''octocat'', check = Breached,
      check_outputs = [(''value'', ''650'')], action_ok = (\<lambda>j i. True)\<rparr>"

definition run_fault :: env where
  "run_fault =
     \<lparr>github_sha = ''4f2a9c1'', github_actor = ''octocat'', check = Faulted,
      check_outputs = [], action_ok = (\<lambda>j i. True)\<rparr>"


section \<open>The report steps (performance-test.yml, weekly-report.yml)\<close>




text \<open>
  An expression \<^verbatim>\<open>${{ ... }}\<close> is replaced by its value before the script runs: the value
  is pasted into the text of the script, inside the double quotes of its \<^verbatim>\<open>echo\<close>, and
  bash then reads the line. Inside double quotes four characters are special to bash: the
  dollar sign, the backquote, the backslash and the double quote itself. A text without
  them is printed as it is. Of the expansions, the one of a variable, a dollar sign
  followed by a name, is modelled: \<open>dquote vars None t\<close> is what bash prints for the
  quoted text \<open>t\<close> (its second argument is the name being read, if any). Every other use
  of a special character (a command substitution, arithmetic, braces, an escape, a quote
  that ends the string) is outside the model, and the result is \<open>None\<close>.
\<close>

definition special :: "char \<Rightarrow> bool" where
  "special c = (c = CHR 0x24 \<or> c = CHR 0x60 \<or> c = CHR 0x5C \<or> c = CHR 0x22)"

definition plain :: "string \<Rightarrow> bool" where
  "plain t = list_all (\<lambda>c. \<not> special c) t"















section \<open>The traffic generator (generatetraffic.js)\<close>

definition endpoints :: "string list" where
  "endpoints = [''/'', ''/fast'', ''/slow'', ''/error'']"

text \<open>
  \<^verbatim>\<open>endpoints[Math.floor(Math.random() * endpoints.length)]\<close>, for the number \<open>r\<close> that
  \<^verbatim>\<open>Math.random()\<close> returned. The product with the length 4 and its floor are exact on
  the numbers of JavaScript, so \<open>r\<close> is a \<open>real\<close>. An index outside the array reads
  \<^verbatim>\<open>undefined\<close>, here \<open>None\<close>.
\<close>

definition pick_endpoint :: "real \<Rightarrow> string option" where
  "pick_endpoint r =
     (let i = \<lfloor>r * real (length endpoints)\<rfloor>
      in if 0 \<le> i \<and> i < int (length endpoints) then Some (endpoints ! nat i) else None)"

record request =
  dispatched_at :: nat
  path :: "string option"

text \<open>
  The loop registers twenty timers, the \<open>i\<close>-th with a delay of \<open>i * 500\<close> milliseconds,
  and ends; it waits for nothing. The timers fire in the order of their delays, which is
  the order of registration, and the callback of the \<open>k\<close>-th one to fire makes the
  \<open>k\<close>-th call of \<^verbatim>\<open>Math.random\<close>, here \<open>random k\<close>, and sends its request. Times are
  the nominal ones, in milliseconds from the start of the script.
\<close>

definition timers :: "nat list" where
  "timers = map (\<lambda>i. i * 500) [0..<20]"

definition generate_traffic :: "(nat \<Rightarrow> real) \<Rightarrow> request list" where
  "generate_traffic random =
     map (\<lambda>kt. \<lparr>dispatched_at = snd kt, path = pick_endpoint (random (fst kt))\<rparr>)
       (enumerate 0 timers)"

text \<open>
  The server of the same file answers \<^verbatim>\<open>/slow\<close> from a timer of 2000 milliseconds and
  every other path at once. A request is in flight from its dispatch until its response
  has arrived, which takes the handler's delay and the time \<open>net k\<close> on the network.
\<close>

definition handler_delay :: "string \<Rightarrow> nat" where
  "handler_delay p = (if p = ''/slow'' then 2000 else 0)"

definition response_at :: "(nat \<Rightarrow> nat) \<Rightarrow> nat \<times> request \<Rightarrow> nat" where
  "response_at net kq =
     dispatched_at (snd kq)
     + (case path (snd kq) of None \<Rightarrow> 0 | Some p \<Rightarrow> handler_delay p) + net (fst kq)"

definition in_flight :: "(nat \<Rightarrow> nat) \<Rightarrow> request list \<Rightarrow> nat \<Rightarrow> nat" where
  "in_flight net reqs t =
     length (filter (\<lambda>kq. dispatched_at (snd kq) \<le> t \<and> t < response_at net kq)
               (enumerate 0 reqs))"

section \<open>Properties of the load test script\<close>

lemma load_test_resolved_exit:
  "exit_code (load_test (Inr r)) = (if latency_p99 r > 500 then 1 else 0)"
  by (simp add: load_test_def runLoadTest_def Let_def)

lemma load_test_rejected_exit: "exit_code (load_test (Inl e)) = 1"
  by (simp add: load_test_def runLoadTest_def Let_def)

lemma load_test_resolved_stderr:
  "stderr (load_test (Inr r)) =
     (if latency_p99 r > 500 then [Line ''Performance threshold exceeded!''] else [])"
  by (simp add: load_test_def runLoadTest_def Let_def console_log_def console_error_def)

lemma load_test_resolved_stdout:
  "stdout (load_test (Inr r)) =
     [Line ''Starting load test...'', Line ''Load test complete'', Line ''Results:'',
      LineNum ''- Requests: '' (requests_total r) [],
      LineNum ''- Throughput: '' (throughput_total r) '' bytes/sec'',
      LineNum ''- Latency (avg): '' (latency_average r) '' ms'',
      LineNum ''- Latency (p99): '' (latency_p99 r) '' ms'']"
  by (simp add: load_test_def runLoadTest_def Let_def console_log_def console_error_def)

lemma load_test_rejected_stdout:
  "stdout (load_test (Inl e)) = [Line ''Starting load test...'']"
  by (simp add: load_test_def runLoadTest_def Let_def console_log_def console_error_def)

lemma load_test_rejected_stderr:
  "stderr (load_test (Inl e)) = [LineErr ''Load test failed:'' e]"
  by (simp add: load_test_def runLoadTest_def Let_def console_log_def console_error_def)

text \<open>
  C1, as stated: with the threshold 500 the outcome is pass iff the observed value is
  strictly below 500, so an observed p99 of exactly 500 fails. The script does not do
  that: at a p99 of exactly 500 the test \<^verbatim>\<open>result.latency.p99 > 500\<close> is false and the
  process exits with status 0, a pass, although 500 is not below 500.
\<close>

theorem below_threshold_counterexample:
  "gate_outcome (load_test (Inr \<lparr>requests_total = 1000, throughput_total = 20000,
       latency_average = 120, latency_p99 = 500\<rparr>)) = Pass
   \<and> \<not> latency_p99 \<lparr>requests_total = 1000, throughput_total = 20000,
       latency_average = 120, latency_p99 = 500\<rparr> < 500"
  by (simp add: gate_outcome_def load_test_resolved_exit)

text \<open>
  C1, amended: the outcome of the load test's gate is pass iff the observed p99 latency
  does not exceed the threshold 500 (observed \<open>\<le>\<close> 500); an observed value of 450 or of
  exactly 500 passes, one of 650 fails.
\<close>

theorem gate_pass_iff_not_above:
  "(gate_outcome (load_test (Inr r)) = Pass) = (latency_p99 r \<le> 500)
   \<and> gate_outcome (load_test (Inr (r\<lparr>latency_p99 := 450\<rparr>))) = Pass
   \<and> gate_outcome (load_test (Inr (r\<lparr>latency_p99 := 500\<rparr>))) = Pass
   \<and> gate_outcome (load_test (Inr (r\<lparr>latency_p99 := 650\<rparr>))) = Fail"
  by (simp add: gate_outcome_def load_test_resolved_exit)

text \<open>
  C9, as stated: a run-level failure and a threshold breach are different kinds of
  result for the caller, and the breach is not an error. The script ends with the same
  exit status 1 in both cases: here autocannon rejecting with a connection error, and
  a completed run whose p99 is 650.
\<close>

theorem failure_kinds_counterexample:
  "exit_code (load_test (Inl ''connect ECONNREFUSED 127.0.0.1:3000'')) = 1
   \<and> exit_code (load_test (Inr \<lparr>requests_total = 1000, throughput_total = 20000,
         latency_average = 120, latency_p99 = 650\<rparr>)) = 1
   \<and> gate_outcome (load_test (Inl ''connect ECONNREFUSED 127.0.0.1:3000''))
       = gate_outcome (load_test (Inr \<lparr>requests_total = 1000, throughput_total = 20000,
         latency_average = 120, latency_p99 = 650\<rparr>))"
  by (simp add: gate_outcome_def load_test_resolved_exit load_test_rejected_exit)

text \<open>
  C9, amended: a run-level failure (autocannon rejects) and a threshold breach (p99
  above 500) both end the script with exit status 1, the status of an error, so the
  breach is reported as an error too and the exit status does not tell the two apart;
  only a run whose p99 is at most 500 exits with 0. The caller can tell them apart by
  what the script prints: for the run-level failure \<^verbatim>\<open>Load test failed:\<close> with the error
  on the error stream and nothing but the starting line on the output stream, for the
  breach \<^verbatim>\<open>Performance threshold exceeded!\<close> on the error stream after the seven lines
  of the results on the output stream.
\<close>

theorem failure_kinds_same_status:
  "exit_code (load_test (Inl e)) = 1
   \<and> stderr (load_test (Inl e)) = [LineErr ''Load test failed:'' e]
   \<and> stdout (load_test (Inl e)) = [Line ''Starting load test...'']
   \<and> exit_code (load_test (Inr r)) = (if latency_p99 r > 500 then 1 else 0)
   \<and> stderr (load_test (Inr r)) =
       (if latency_p99 r > 500 then [Line ''Performance threshold exceeded!''] else [])
   \<and> stdout (load_test (Inr r)) =
       [Line ''Starting load test...'', Line ''Load test complete'', Line ''Results:'',
        LineNum ''- Requests: '' (requests_total r) [],
        LineNum ''- Throughput: '' (throughput_total r) '' bytes/sec'',
        LineNum ''- Latency (avg): '' (latency_average r) '' ms'',
        LineNum ''- Latency (p99): '' (latency_p99 r) '' ms'']
   \<and> stderr (load_test (Inl e)) \<noteq> stderr (load_test (Inr r))
   \<and> stdout (load_test (Inl e)) \<noteq> stdout (load_test (Inr r))"
  by (simp add: load_test_resolved_exit load_test_rejected_exit
      load_test_resolved_stderr load_test_rejected_stderr
      load_test_resolved_stdout load_test_rejected_stdout)

section \<open>Properties of the report steps\<close>








lemma plain_append: "plain (a @ b) = (plain a \<and> plain b)"
  by (simp add: plain_def)














section \<open>Properties of the traffic generator\<close>

lemma length_generate_traffic: "length (generate_traffic random) = 20"
  by (simp add: generate_traffic_def timers_def)

lemma nth_generate_traffic:
  "k < 20 \<Longrightarrow>
     generate_traffic random ! k
       = \<lparr>dispatched_at = k * 500, path = pick_endpoint (random k)\<rparr>"
  by (simp add: generate_traffic_def timers_def nth_enumerate_eq)

lemma pick_endpoint_index:
  "0 \<le> r \<Longrightarrow> r < 1 \<Longrightarrow> pick_endpoint r = Some (endpoints ! nat \<lfloor>r * 4\<rfloor>)"
proof -
  assume r: "0 \<le> r" "r < 1"
  have "0 \<le> \<lfloor>r * 4\<rfloor>" using r by simp
  moreover have "\<lfloor>r * 4\<rfloor> < 4" using r by (simp add: floor_less_iff)
  ultimately show ?thesis by (simp add: pick_endpoint_def endpoints_def)
qed

lemma pick_endpoint_interval:
  assumes "0 \<le> r" "r < 1" "n < 4"
  shows "(pick_endpoint r = Some (endpoints ! n)) = (real n / 4 \<le> r \<and> r < (real n + 1) / 4)"
proof -
  have lo: "0 \<le> \<lfloor>r * 4\<rfloor>" using assms by simp
  have hi: "\<lfloor>r * 4\<rfloor> < 4" using assms by (simp add: floor_less_iff)
  have d: "distinct endpoints" by (simp add: endpoints_def)
  have len: "length endpoints = 4" by (simp add: endpoints_def)
  have "(pick_endpoint r = Some (endpoints ! n)) = (endpoints ! nat \<lfloor>r * 4\<rfloor> = endpoints ! n)"
    using assms by (simp add: pick_endpoint_index)
  also have "\<dots> = (nat \<lfloor>r * 4\<rfloor> = n)"
  proof -
    have "nat \<lfloor>r * 4\<rfloor> < 4" using lo hi by linarith
    then have "nat \<lfloor>r * 4\<rfloor> < length endpoints" by (simp only: len)
    moreover have "n < length endpoints" using assms(3) by (simp only: len)
    ultimately show ?thesis by (rule nth_eq_iff_index_eq [OF d])
  qed
  also have "\<dots> = (\<lfloor>r * 4\<rfloor> = int n)"
    using lo by auto
  also have "\<dots> = (real n / 4 \<le> r \<and> r < (real n + 1) / 4)"
    by (simp add: floor_eq_iff field_simps)
  finally show ?thesis .
qed

text \<open>
  C7, as stated: at most one request is in flight at any time. The script does not wait
  for a response before the next timer fires: when the first two draws select
  \<^verbatim>\<open>/slow\<close> (every draw is 0.5 here, index 2), whose handler answers after 2000
  milliseconds, the requests dispatched at 0 and at 500 are both in flight at time 500,
  even on a network that takes no time.
\<close>

theorem single_flight_counterexample:
  "in_flight (\<lambda>k. 0) (generate_traffic (\<lambda>k. 1 / 2)) 500 = 2"
  by (simp add: in_flight_def generate_traffic_def timers_def response_at_def
      pick_endpoint_def endpoints_def handler_delay_def upt_rec [of _ "numeral _"])

text \<open>
  C7, amended: the traffic generator dispatches exactly twenty requests, one per timer,
  the \<open>k\<close>-th at the nominal time \<open>k * 500\<close> milliseconds, so that consecutive dispatches
  are 500 milliseconds apart; on every dispatch it selects the endpoint from one fresh
  draw \<open>r\<close> of \<^verbatim>\<open>Math.random\<close>, and the endpoint at index \<open>n\<close> of the four is selected
  exactly when \<open>n / 4 \<le> r < (n + 1) / 4\<close>: four intervals of the same length, hence a
  uniform choice for a uniform draw. Nothing bounds the number of requests in flight.
\<close>

theorem trickle_dispatch:
  "length (generate_traffic random) = 20
   \<and> (\<forall>k<20. dispatched_at (generate_traffic random ! k) = k * 500)
   \<and> (\<forall>k<19. dispatched_at (generate_traffic random ! Suc k)
               = dispatched_at (generate_traffic random ! k) + 500)
   \<and> (\<forall>k<20. 0 \<le> random k \<and> random k < 1 \<longrightarrow>
         (\<forall>n<4. (path (generate_traffic random ! k) = Some (endpoints ! n))
                  = (real n / 4 \<le> random k \<and> random k < (real n + 1) / 4)))"
  by (simp add: length_generate_traffic nth_generate_traffic pick_endpoint_interval)

theorem trickle_dispatch_witness:
  "(3::nat) < 20 \<and> (0::real) \<le> 1 / 2 \<and> (1::real) / 2 < 1 \<and> (2::nat) < 4
   \<and> length (generate_traffic (\<lambda>k. 1 / 2)) = 20
   \<and> dispatched_at (generate_traffic (\<lambda>k. 1 / 2) ! 3) = 1500
   \<and> dispatched_at (generate_traffic (\<lambda>k. 1 / 2) ! Suc 3)
       = dispatched_at (generate_traffic (\<lambda>k. 1 / 2) ! 3) + 500
   \<and> path (generate_traffic (\<lambda>k. 1 / 2) ! 3) = Some ''/slow''"
proof -
  have e: "endpoints ! 2 = ''/slow''" by (simp add: endpoints_def)
  have k: "(3::nat) < 20" "(3::nat) < 19" "(2::nat) < 4" by simp_all
  have t: "length (generate_traffic (\<lambda>k. 1 / 2)) = 20
    \<and> (\<forall>k<20. dispatched_at (generate_traffic (\<lambda>k. 1 / 2) ! k) = k * 500)
    \<and> (\<forall>k<19. dispatched_at (generate_traffic (\<lambda>k. 1 / 2) ! Suc k)
               = dispatched_at (generate_traffic (\<lambda>k. 1 / 2) ! k) + 500)
    \<and> (\<forall>k<20. (0::real) \<le> 1 / 2 \<and> (1::real) / 2 < 1 \<longrightarrow>
         (\<forall>n<4. (path (generate_traffic (\<lambda>k. 1 / 2) ! k) = Some (endpoints ! n))
                  = (real n / 4 \<le> 1 / 2 \<and> 1 / 2 < (real n + 1) / 4)))"
    by (rule trickle_dispatch [of "\<lambda>k. 1 / 2"])
  from t have a: "length (generate_traffic (\<lambda>k. 1 / 2)) = 20" by blast
  from t k have b: "dispatched_at (generate_traffic (\<lambda>k. 1 / 2) ! 3) = 3 * 500" by blast
  from t k have c: "dispatched_at (generate_traffic (\<lambda>k. 1 / 2) ! Suc 3)
      = dispatched_at (generate_traffic (\<lambda>k. 1 / 2) ! 3) + 500" by blast
  have r: "(0::real) \<le> 1 / 2 \<and> (1::real) / 2 < 1" by simp
  from t k r have "(path (generate_traffic (\<lambda>k. 1 / 2) ! 3) = Some (endpoints ! 2))
      = (real 2 / 4 \<le> 1 / 2 \<and> 1 / 2 < (real 2 + 1) / (4::real))" by blast
  then have d: "path (generate_traffic (\<lambda>k. 1 / 2) ! 3) = Some ''/slow''"
    using e by simp
  from a b c d show ?thesis by simp
qed

section \<open>Properties of the deployment workflow\<close>

subsection \<open>The jobs, one by one\<close>

lemma job_ids:
  "job_id performance_gate = ''performance-gate''"
  "job_id deploy_staging = ''deploy-staging''"
  "job_id deploy_production = ''deploy-production''"
  "job_id notify_performance_issue = ''notify-performance-issue''"
  by (simp_all add: performance_gate_def deploy_staging_def deploy_production_def
      notify_performance_issue_def)

text \<open>The four steps of a deploy job: the job fails unless its three actions succeed, and
  the marker is recorded only when the last step is reached and succeeds.\<close>

lemma deploy_steps_failed:
  "failed (foldl (run_step e j) \<lparr>steps_ctx = [], failed = False, markers = []\<rparr>
     (enumerate 0
       [\<lparr>step_id = [], continue_on_error = False, body = Action a\<rparr>,
        \<lparr>step_id = [], continue_on_error = False, body = Action b\<rparr>,
        \<lparr>step_id = [], continue_on_error = False, body = Echo t\<rparr>,
        \<lparr>step_id = [], continue_on_error = False, body = Marker app d\<rparr>]))
   = (\<not> deploy_ok e j)"
  by (simp add: run_step_def deploy_ok_def eval_nat_numeral)

lemma deploy_steps_markers:
  "markers (foldl (run_step e j) \<lparr>steps_ctx = [], failed = False, markers = []\<rparr>
     (enumerate 0
       [\<lparr>step_id = [], continue_on_error = False, body = Action a\<rparr>,
        \<lparr>step_id = [], continue_on_error = False, body = Action b\<rparr>,
        \<lparr>step_id = [], continue_on_error = False, body = Echo t\<rparr>,
        \<lparr>step_id = [], continue_on_error = False, body = Marker app d\<rparr>]))
   = (if deploy_ok e j
      then [\<lparr>app_name = app, revision = github_sha e, user = github_actor e, description = d\<rparr>]
      else [])"
  by (simp add: run_step_def deploy_ok_def eval_nat_numeral)

lemma run_gate:
  "run_job e [] performance_gate =
     \<lparr>result = Success,
      outputs = [(''performance_status'',
                  case map_of (check_outputs e) ''status'' of None \<Rightarrow> [] | Some v \<Rightarrow> v)],
      steps_of =
        [(''performance-check'',
          \<lparr>outcome = (if check e = Met then Success else Failure), conclusion = Success,
           step_outputs = check_outputs e\<rparr>),
         (''set-status'',
          \<lparr>outcome = Success, conclusion = Success,
           step_outputs = [(''status'', if check e = Met then ''pass'' else ''fail'')]\<rparr>)],
      emitted = []\<rparr>"
  by (simp add: run_job_def job_runs_def performance_gate_def run_step_def
      steps_output_def steps_outcome_def)

lemma run_staging_result:
  "result (run_job e rs deploy_staging) =
     (if needs_result rs ''performance-gate'' = Success
      then (if deploy_ok e ''deploy-staging'' then Success else Failure)
      else Skipped)"
  by (simp add: run_job_def job_runs_def deploy_staging_def
      deploy_steps_failed [simplified] Let_def)

lemma run_staging_emitted:
  "emitted (run_job e rs deploy_staging) =
     (if needs_result rs ''performance-gate'' = Success \<and> deploy_ok e ''deploy-staging''
      then [\<lparr>app_name = ''Express APM Demo'', revision = github_sha e,
             user = github_actor e, description = ''Deployed to staging''\<rparr>]
      else [])"
  by (simp add: run_job_def job_runs_def deploy_staging_def
      deploy_steps_markers [simplified] Let_def)

lemma run_production_result:
  "result (run_job e rs deploy_production) =
     (if needs_result rs ''performance-gate'' = Success
         \<and> needs_result rs ''deploy-staging'' = Success
         \<and> expr_eq (needs_output rs ''performance-gate'' ''performance_status'') ''pass''
      then (if deploy_ok e ''deploy-production'' then Success else Failure)
      else Skipped)"
  by (simp add: run_job_def job_runs_def deploy_production_def
      deploy_steps_failed [simplified] Let_def)

lemma run_production_emitted:
  "emitted (run_job e rs deploy_production) =
     (if needs_result rs ''performance-gate'' = Success
         \<and> needs_result rs ''deploy-staging'' = Success
         \<and> expr_eq (needs_output rs ''performance-gate'' ''performance_status'') ''pass''
         \<and> deploy_ok e ''deploy-production''
      then [\<lparr>app_name = ''Express APM Demo'', revision = github_sha e,
             user = github_actor e, description = ''Deployed to production''\<rparr>]
      else [])"
  by (simp add: run_job_def job_runs_def deploy_production_def
      deploy_steps_markers [simplified] Let_def)

lemma run_notify_result:
  "result (run_job e rs notify_performance_issue) =
     (if needs_result rs ''performance-gate'' = Success
         \<and> expr_eq (needs_output rs ''performance-gate'' ''performance_status'') ''fail''
      then Success else Skipped)"
  by (simp add: run_job_def job_runs_def notify_performance_issue_def run_step_def Let_def)

lemma run_notify_emitted: "emitted (run_job e rs notify_performance_issue) = []"
  by (simp add: run_job_def job_runs_def notify_performance_issue_def run_step_def Let_def)

subsection \<open>The run as a whole\<close>

lemma pipeline_unfold:
  "pipeline e =
     (let rs1 = [(''performance-gate'', run_job e [] performance_gate)];
          rs2 = rs1 @ [(''deploy-staging'', run_job e rs1 deploy_staging)];
          rs3 = rs2 @ [(''deploy-production'', run_job e rs2 deploy_production)]
      in rs3 @ [(''notify-performance-issue'', run_job e rs3 notify_performance_issue)])"
  by (simp add: pipeline_def run_workflow_def deploy_workflow_def job_ids Let_def)

lemma stage_gate: "stage e ''performance-gate'' = Success"
  by (simp add: stage_def pipeline_unfold needs_result_def run_gate Let_def)

lemma performance_status_eq:
  "performance_status e =
     (case map_of (check_outputs e) ''status'' of None \<Rightarrow> [] | Some v \<Rightarrow> v)"
  by (simp add: performance_status_def pipeline_unfold needs_output_def run_gate Let_def)

lemma set_status_eq: "set_status e = (if check e = Met then ''pass'' else ''fail'')"
  by (simp add: set_status_def pipeline_unfold run_gate steps_output_def Let_def)

lemma stage_staging:
  "stage e ''deploy-staging'' = (if deploy_ok e ''deploy-staging'' then Success else Failure)"
  by (simp add: stage_def pipeline_unfold needs_result_def run_gate run_staging_result Let_def)

lemma markers_staging:
  "markers_of e ''deploy-staging'' =
     (if deploy_ok e ''deploy-staging''
      then [\<lparr>app_name = ''Express APM Demo'', revision = github_sha e,
             user = github_actor e, description = ''Deployed to staging''\<rparr>]
      else [])"
  by (simp add: markers_of_def pipeline_unfold needs_result_def run_gate run_staging_emitted
      Let_def)

lemma stage_production:
  "stage e ''deploy-production'' =
     (if expr_eq (performance_status e) ''pass'' \<and> stage e ''deploy-staging'' = Success
      then (if deploy_ok e ''deploy-production'' then Success else Failure)
      else Skipped)"
  by (simp add: stage_staging performance_status_eq)
     (simp add: stage_def pipeline_unfold needs_result_def needs_output_def run_gate
      run_staging_result run_production_result Let_def)

lemma markers_production:
  "markers_of e ''deploy-production'' =
     (if stage e ''deploy-production'' = Success
      then [\<lparr>app_name = ''Express APM Demo'', revision = github_sha e,
             user = github_actor e, description = ''Deployed to production''\<rparr>]
      else [])"
  by (simp add: stage_production stage_staging performance_status_eq)
     (simp add: markers_of_def pipeline_unfold needs_result_def needs_output_def run_gate
      run_staging_result run_production_emitted Let_def)

lemma stage_notify:
  "stage e ''notify-performance-issue'' =
     (if expr_eq (performance_status e) ''fail'' then Success else Skipped)"
  by (simp add: performance_status_eq)
     (simp add: stage_def pipeline_unfold needs_result_def needs_output_def run_gate
      run_notify_result Let_def)

lemma all_markers_eq:
  "all_markers e = markers_of e ''deploy-staging'' @ markers_of e ''deploy-production''"
  by (simp add: all_markers_def markers_of_def pipeline_unfold run_gate run_notify_emitted
      Let_def)

lemma gate_decision_simps:
  "(gate_decision s = Some Pass) = (s = ''pass'')"
  "(gate_decision s = Some Fail) = (s = ''fail'')"
  by (auto simp: gate_decision_def)

text \<open>A fault of the threshold check and a breach of the threshold are the same input to
  every step: each body reads the check through the test \<open>check e = Met\<close> alone.\<close>

lemma exec_body_fault:
  "exec_body (e\<lparr>check := Faulted\<rparr>) j i ctx b = exec_body (e\<lparr>check := Breached\<rparr>) j i ctx b"
  by (cases b) simp_all

lemma run_step_fault:
  "run_step (e\<lparr>check := Faulted\<rparr>) j s ist = run_step (e\<lparr>check := Breached\<rparr>) j s ist"
  by (cases ist) (simp add: run_step_def exec_body_fault)

lemma run_job_fault:
  "run_job (e\<lparr>check := Faulted\<rparr>) rs jb = run_job (e\<lparr>check := Breached\<rparr>) rs jb"
proof -
  have "run_step (e\<lparr>check := Faulted\<rparr>) (job_id jb) = run_step (e\<lparr>check := Breached\<rparr>) (job_id jb)"
    by (intro ext) (rule run_step_fault)
  then show ?thesis by (simp add: run_job_def)
qed

lemma run_workflow_fault:
  "run_workflow (e\<lparr>check := Faulted\<rparr>) jobs = run_workflow (e\<lparr>check := Breached\<rparr>) jobs"
  by (simp add: run_workflow_def run_job_fault)

subsection \<open>The claims about the workflow\<close>

text \<open>
  The Gate Decision of a run is the verdict the performance-gate job computes: the value
  the step \<^verbatim>\<open>set-status\<close> writes from the outcome of the threshold check. The guards of
  the later jobs read the job output \<^verbatim>\<open>performance_status\<close> instead, which the workflow
  declares as the output \<^verbatim>\<open>status\<close> of the check action.
\<close>


text \<open>
  C3: in every run, whatever the threshold check did and whatever the Gate Decision is,
  the performance-gate stage ends as ran-ok (the check step has
  \<^verbatim>\<open>continue-on-error: true\<close>) and the deploy-staging stage is attempted; its outcome is
  the same for every result and every output of the check.
\<close>

theorem staging_not_gated:
  "stage e ''performance-gate'' = Success
   \<and> stage e ''deploy-staging'' \<noteq> Skipped
   \<and> stage (e\<lparr>check := c, check_outputs := outs\<rparr>) ''deploy-staging''
       = stage e ''deploy-staging''"
  by (simp add: stage_gate stage_staging deploy_ok_def)

text \<open>
  C4, as stated: an evaluation in which the threshold check itself faults is reported as
  a configuration error, apart from a breach, and does not default to pass or fail. In
  the workflow a faulting check makes the \<^verbatim>\<open>Set performance status\<close> step write
  \<^verbatim>\<open>status=fail\<close>, the value it writes for a breach.
\<close>

theorem fault_counterexample:
  "set_status run_fault = ''fail''
   \<and> gate_decision (set_status run_fault) = Some Fail
   \<and> set_status run_fault = set_status run_breach"
  by (simp add: set_status_eq gate_decision_simps run_fault_def run_breach_def)

text \<open>
  C4, amended: an evaluation in which the threshold check faults ends the check step
  with the outcome failure, as a breach does; the \<^verbatim>\<open>Set performance status\<close> step maps
  it to the status fail, never to pass, and the whole run (every job's result, outputs,
  steps and markers) is the one a breach gives. No configuration error is reported.
\<close>

theorem fault_is_treated_as_breach:
  "set_status (e\<lparr>check := Faulted\<rparr>) = ''fail''
   \<and> set_status (e\<lparr>check := Breached\<rparr>) = ''fail''
   \<and> gate_decision (set_status (e\<lparr>check := Faulted\<rparr>)) = Some Fail
   \<and> pipeline (e\<lparr>check := Faulted\<rparr>) = pipeline (e\<lparr>check := Breached\<rparr>)"
  by (simp add: set_status_eq gate_decision_simps pipeline_def run_workflow_fault)

text \<open>
  C5: in every run, the notify-performance-issue stage runs if and only if the Gate
  Decision is fail. In a run where the threshold is breached, the Gate Decision is fail
  (the step \<^verbatim>\<open>set-status\<close> writes fail), but the job output \<^verbatim>\<open>performance_status\<close> that
  the guard reads is empty, and the notify-performance-issue stage is skipped.
\<close>

theorem breach_without_notification:
  "gate_decision (set_status run_breach) = Some Fail
   \<and> performance_status run_breach = []
   \<and> stage run_breach ''performance-gate'' = Success
   \<and> stage run_breach ''notify-performance-issue'' = Skipped"
  by (simp add: set_status_eq gate_decision_simps performance_status_eq stage_gate
      stage_notify expr_eq_def to_lower_def run_breach_def)

text \<open>
  C6: in every run in which the Gate Decision is pass and deploy-staging reaches ran-ok,
  exactly one Deployment Marker is emitted for staging and exactly one for production,
  with the same revision id. In a run where the threshold is met and every action
  succeeds, the Gate Decision is pass and deploy-staging is ran-ok with its one marker,
  but the job output \<^verbatim>\<open>performance_status\<close> that the guard of deploy-production reads
  is empty: deploy-production is skipped and no marker is emitted for production.
\<close>

theorem met_without_production_marker:
  "gate_decision (set_status run_value_only) = Some Pass
   \<and> stage run_value_only ''deploy-staging'' = Success
   \<and> stage run_value_only ''deploy-production'' = Skipped
   \<and> markers_of run_value_only ''deploy-production'' = []
   \<and> all_markers run_value_only
       = [\<lparr>app_name = ''Express APM Demo'', revision = ''4f2a9c1'', user = ''octocat'',
           description = ''Deployed to staging''\<rparr>]"
  by (simp add: set_status_eq gate_decision_simps all_markers_eq markers_production
      markers_staging stage_production stage_staging performance_status_eq deploy_ok_def
      expr_eq_def to_lower_def run_value_only_def)

text \<open>
  C10: every completed run of the performance-gate job gives the output
  \<^verbatim>\<open>performance_status\<close> one of the values pass and fail, computed from the outcome of
  the check step. The job does compute that value, in the step \<^verbatim>\<open>set-status\<close>, but its
  output is declared as \<^verbatim>\<open>steps.performance-check.outputs.status\<close>, an output of the
  check action, not of \<^verbatim>\<open>set-status\<close>. In a run where the threshold is met and the
  action sets its output \<^verbatim>\<open>value\<close> only, \<^verbatim>\<open>set-status\<close> writes pass while
  \<^verbatim>\<open>performance_status\<close> is empty, no Gate Decision, and neither guarded job runs; in a
  run with a breach \<^verbatim>\<open>set-status\<close> writes fail and the notification does not run.
\<close>

theorem performance_status_not_set:
  "set_status run_value_only = ''pass''
   \<and> performance_status run_value_only = []
   \<and> gate_decision (performance_status run_value_only) = None
   \<and> stage run_value_only ''deploy-production'' = Skipped
   \<and> stage run_value_only ''notify-performance-issue'' = Skipped
   \<and> set_status run_breach = ''fail''
   \<and> performance_status run_breach = []
   \<and> stage run_breach ''deploy-production'' = Skipped
   \<and> stage run_breach ''notify-performance-issue'' = Skipped"
  by (simp add: set_status_eq performance_status_eq stage_production stage_notify
      gate_decision_def expr_eq_def to_lower_def run_value_only_def run_breach_def)

end
